theory Spec2Isabelle
  imports Main
begin

section \<open>Strings\<close>

text \<open>
  A Python \<^verbatim>\<open>str\<close> is modelled as a \<^typ>\<open>string\<close>; a character stands for the code point
  of the same number, so the model covers text whose code points are below 256. The
  accented letters of the source's messages are written by code point
  (\<^verbatim>\<open>CHR 0xE1\<close> is a-acute).
\<close>

definition isspace :: "char \<Rightarrow> bool" where
  \<comment> \<open>\<^verbatim>\<open>str.isspace\<close> on the code points below 256\<close>
  "isspace c = ((of_char c :: nat) \<in> {9, 10, 11, 12, 13, 28, 29, 30, 31, 32, 133, 160})"

definition strip :: "string \<Rightarrow> string" where
  \<comment> \<open>\<^verbatim>\<open>s.strip()\<close>\<close>
  "strip s = rev (dropWhile isspace (rev (dropWhile isspace s)))"

definition lower_char :: "char \<Rightarrow> char" where
  "lower_char c =
     (let n = (of_char c :: nat)
      in if (65 \<le> n \<and> n \<le> 90) \<or> (192 \<le> n \<and> n \<le> 222 \<and> n \<noteq> 215)
         then char_of (n + 32) else c)"

definition lower :: "string \<Rightarrow> string" where
  \<comment> \<open>\<^verbatim>\<open>s.lower()\<close>\<close>
  "lower s = map lower_char s"

fun split :: "char \<Rightarrow> string \<Rightarrow> string list" where
  \<comment> \<open>\<^verbatim>\<open>s.split(sep)\<close> for a separator of one character\<close>
  "split sep [] = [[]]"
| "split sep (c # cs) =
     (if c = sep then [] # split sep cs
      else (case split sep cs of
              [] \<Rightarrow> [[c]]
            | w # ws \<Rightarrow> (c # w) # ws))"

fun join :: "string \<Rightarrow> string list \<Rightarrow> string" where
  \<comment> \<open>\<^verbatim>\<open>sep.join(xs)\<close>\<close>
  "join sep [] = []"
| "join sep [x] = x"
| "join sep (x # y # ys) = x @ sep @ join sep (y # ys)"

definition digit :: "nat \<Rightarrow> char" where
  "digit d = char_of (48 + d)"

function str_nat :: "nat \<Rightarrow> string" where
  \<comment> \<open>\<^verbatim>\<open>str(n)\<close> for a non-negative integer\<close>
  "str_nat n = (if n < 10 then [digit n] else str_nat (n div 10) @ [digit (n mod 10)])"
  by pat_completeness auto
termination
  by (relation "measure id") auto

section \<open>Exceptions\<close>

text \<open>
  A Python exception caught by \<^verbatim>\<open>except Exception as e\<close> is a value \<open>Exn m\<close>, where
  \<open>m\<close> is what \<^verbatim>\<open>str(e)\<close> gives. A call that may raise returns \<open>exn + 'a\<close>, with \<open>Inl\<close>
  for the raise.
\<close>

datatype exn = Exn string

fun str_exn :: "exn \<Rightarrow> string" where
  "str_exn (Exn m) = m"

definition bind_exn :: "exn + 'a \<Rightarrow> ('a \<Rightarrow> exn + 'b) \<Rightarrow> exn + 'b" where
  \<comment> \<open>run \<open>m\<close>, then \<open>f\<close> on its value; a raise in \<open>m\<close> skips \<open>f\<close>\<close>
  "bind_exn m f = (case m of Inl e \<Rightarrow> Inl e | Inr v \<Rightarrow> f v)"

definition try_except :: "exn + 'a \<Rightarrow> (exn \<Rightarrow> exn + 'a) \<Rightarrow> exn + 'a" where
  \<comment> \<open>\<^verbatim>\<open>try: body  except Exception as e: handler\<close>\<close>
  "try_except body handler = (case body of Inl e \<Rightarrow> handler e | Inr v \<Rightarrow> Inr v)"

type_synonym bytes = "nat list"

section \<open>OCR adapter (services/ocr\_service.py)\<close>

text \<open>
  The imaging and OCR libraries are parameters: what \<^verbatim>\<open>Image.open\<close>,
  \<^verbatim>\<open>pytesseract.image_to_string\<close>, \<^verbatim>\<open>convert_from_bytes\<close> and \<^verbatim>\<open>image.save\<close> do on
  each input, a raise included.
\<close>

record 'img ocr_lib =
  image_open :: "bytes \<Rightarrow> exn + 'img"
  image_to_string :: "'img \<Rightarrow> string \<Rightarrow> exn + string"
  convert_from_bytes :: "bytes \<Rightarrow> nat \<Rightarrow> exn + 'img list"
  image_save_png :: "'img \<Rightarrow> exn + bytes"

definition TESSERACT_LANG :: string where
  "TESSERACT_LANG = ''por+eng''"

definition extract_text_from_image_bytes :: "'img ocr_lib \<Rightarrow> bytes \<Rightarrow> exn + string" where
  "extract_text_from_image_bytes lib image_bytes =
     try_except
       (bind_exn (image_open lib image_bytes) (\<lambda>img.
        bind_exn (image_to_string lib img TESSERACT_LANG) (\<lambda>text.
        Inr (strip text))))
       (\<lambda>e. Inr [])"

definition page_header :: "nat \<Rightarrow> string" where
  \<comment> \<open>the f-string of line 44 up to the page's text, for the page number \<open>i + 1\<close>\<close>
  "page_header k = [CHR 0x0A] @ ''--- P'' @ [CHR 0xE1] @ ''gina '' @ str_nat k @ '' ---'' @ [CHR 0x0A]"

definition page_error_header :: "nat \<Rightarrow> string" where
  \<comment> \<open>the f-string of line 47\<close>
  "page_error_header k =
     [CHR 0x0A] @ ''--- P'' @ [CHR 0xE1] @ ''gina '' @ str_nat k
       @ '' (Erro na extra'' @ [CHR 0xE7, CHR 0xE3] @ ''o) ---'' @ [CHR 0x0A]"

definition page_text :: "'img ocr_lib \<Rightarrow> 'img \<Rightarrow> exn + string" where
  \<comment> \<open>the body of the inner \<^verbatim>\<open>try\<close> up to the extracted text\<close>
  "page_text lib img =
     bind_exn (image_save_png lib img) (\<lambda>img_byte_arr.
     extract_text_from_image_bytes lib img_byte_arr)"

fun pdf_pages :: "'img ocr_lib \<Rightarrow> nat \<Rightarrow> 'img list \<Rightarrow> string \<Rightarrow> string" where
  \<comment> \<open>the loop \<^verbatim>\<open>for i, image in enumerate(images)\<close>, from index \<open>i\<close> on, with \<open>full_text\<close>\<close>
  "pdf_pages lib i [] full_text = full_text"
| "pdf_pages lib i (img # images) full_text =
     pdf_pages lib (i + 1) images
       (case page_text lib img of
          Inr t \<Rightarrow> full_text @ page_header (i + 1) @ t
        | Inl e_page \<Rightarrow> full_text @ page_error_header (i + 1))"

definition extract_text_from_pdf_bytes :: "'img ocr_lib \<Rightarrow> bytes \<Rightarrow> exn + string" where
  "extract_text_from_pdf_bytes lib pdf_bytes =
     try_except
       (bind_exn (convert_from_bytes lib pdf_bytes 200) (\<lambda>images.
        Inr (strip (pdf_pages lib 0 images []))))
       (\<lambda>e. Inr [])"

section \<open>Inference adapter (services/llm\_service.py)\<close>

text \<open>
  The module loads the tokenizer, the model and the pipeline once, when it is imported;
  \<open>text2text_generator\<close> is \<^verbatim>\<open>None\<close> when loading failed. The model library is a
  parameter: what the tokenizer call, \<^verbatim>\<open>model.generate\<close> and \<^verbatim>\<open>tokenizer.decode\<close> do.
\<close>

record generate_args =
  max_length :: nat
  min_length :: "nat option"
  num_beams :: nat
  early_stopping :: bool

record ('tok, 'out) llm_lib =
  text2text_generator :: bool  \<comment> \<open>whether the pipeline object is there (not \<^verbatim>\<open>None\<close>)\<close>
  tokenizer :: "string \<Rightarrow> nat \<Rightarrow> exn + 'tok"  \<comment> \<open>prompt and \<^verbatim>\<open>max_length\<close>, truncating\<close>
  model_generate :: "'tok \<Rightarrow> generate_args \<Rightarrow> exn + 'out list"
  tokenizer_decode :: "'out \<Rightarrow> exn + string"

definition first_output :: "'out list \<Rightarrow> exn + 'out" where
  \<comment> \<open>\<^verbatim>\<open>outputs[0]\<close>\<close>
  "first_output outputs =
     (case outputs of [] \<Rightarrow> Inl (Exn ''index out of range'') | out # _ \<Rightarrow> Inr out)"

definition generate_summary ::
  "('tok, 'out) llm_lib \<Rightarrow> string \<Rightarrow> nat \<Rightarrow> nat \<Rightarrow> exn + string" where
  "generate_summary llm text max_len min_len =
     (if \<not> text2text_generator llm
      then Inr (''Erro: LLM n'' @ [CHR 0xE3] @ ''o dispon'' @ [CHR 0xED] @ ''vel para sumariza''
                  @ [CHR 0xE7, CHR 0xE3] @ ''o.'')
      else
        let prompt = ''summarize: '' @ text in
        bind_exn (tokenizer llm prompt 512) (\<lambda>inputs.
        try_except
          (bind_exn (model_generate llm inputs
                       \<lparr>max_length = max_len, min_length = Some min_len,
                        num_beams = 4, early_stopping = True\<rparr>) (\<lambda>outputs.
           bind_exn (first_output outputs) (\<lambda>out.
           bind_exn (tokenizer_decode llm out) (\<lambda>summary.
           Inr summary))))
          (\<lambda>e. Inr (''Erro ao gerar sum'' @ [CHR 0xE1] @ ''rio.''))))"

definition analyze_resume_with_query ::
  "('tok, 'out) llm_lib \<Rightarrow> string \<Rightarrow> string \<Rightarrow> nat \<Rightarrow> exn + string" where
  "analyze_resume_with_query llm resume_text query max_len =
     (if \<not> text2text_generator llm
      then Inr (''Erro: LLM n'' @ [CHR 0xE3] @ ''o dispon'' @ [CHR 0xED] @ ''vel para an''
                  @ [CHR 0xE1] @ ''lise.'')
      else
        let prompt =
              ''Based on the following resume text, answer the question. Resume text: ''
                @ [CHR 0x22] @ resume_text @ [CHR 0x22] @ ''. Question: ''
                @ [CHR 0x22] @ query @ [CHR 0x22] in
        bind_exn (tokenizer llm prompt 1024) (\<lambda>inputs.
        try_except
          (bind_exn (model_generate llm inputs
                       \<lparr>max_length = max_len, min_length = None,
                        num_beams = 4, early_stopping = True\<rparr>) (\<lambda>outputs.
           bind_exn (first_output outputs) (\<lambda>out.
           bind_exn (tokenizer_decode llm out) (\<lambda>analysis.
           Inr analysis))))
          (\<lambda>e. Inr (''Erro ao analisar curr'' @ [CHR 0xED] @ ''culo.''))))"

section \<open>Usage logger (services/db\_service.py)\<close>

text \<open>
  \<open>logs_collection\<close> is the module's handle on the collection, \<^verbatim>\<open>None\<close> when the
  connection failed at import. Of a handle the logger uses two operations, and a handle is
  what they do: \<open>truth_value\<close> is what the truth test in \<^verbatim>\<open>if not logs_collection\<close> gives (the
  boolean the handle's class returns, or the exception it raises: the collection class of
  the driver's version 4 raises \<^verbatim>\<open>NotImplementedError\<close> there), and \<open>insert_result\<close> is what
  \<^verbatim>\<open>insert_one\<close> does with a document (\<open>None\<close> for a successful insert, the exception
  otherwise). The truth test of line 30 stands outside the \<^verbatim>\<open>try\<close>, so an exception of
  it leaves \<open>log_usage\<close>. The collection's content is the list of documents inserted so far.
\<close>

record result_summary =
  files_processed :: nat
  files_failed :: nat
  operation_type :: string

record log_document =
  doc_request_id :: string
  doc_user_id :: string
  doc_timestamp :: nat
  doc_query_text :: "string option"
  doc_result_summary :: result_summary

record collection =
  truth_value :: "exn + bool"
  insert_result :: "log_document \<Rightarrow> exn option"

record db =
  logs_collection :: "collection option"
  utcnow :: nat  \<comment> \<open>what \<^verbatim>\<open>datetime.utcnow()\<close> returns\<close>

definition insert_one ::
  "collection \<Rightarrow> log_document \<Rightarrow> log_document list \<Rightarrow> (exn + unit) \<times> log_document list" where
  "insert_one coll doc stored =
     (case insert_result coll doc of
        Some e \<Rightarrow> (Inl e, stored)
      | None \<Rightarrow> (Inr (), stored @ [doc]))"

definition log_usage ::
  "db \<Rightarrow> string \<Rightarrow> string \<Rightarrow> string option \<Rightarrow> result_summary \<Rightarrow> log_document list
     \<Rightarrow> (exn + unit) \<times> log_document list" where
  "log_usage d request_id user_id query_text result_summary stored =
     (case logs_collection d of
        None \<Rightarrow> (Inr (), stored)
      | Some coll \<Rightarrow>
          (case truth_value coll of
             Inl e \<Rightarrow> (Inl e, stored)
           | Inr b \<Rightarrow>
               if \<not> b then (Inr (), stored)
               else
                 let log_document =
                       \<lparr>doc_request_id = request_id, doc_user_id = user_id,
                        doc_timestamp = utcnow d, doc_query_text = query_text,
                        doc_result_summary = result_summary\<rparr>
                 in (case insert_one coll log_document stored of
                       (Inl e, stored') \<Rightarrow> (Inr (), stored')
                     | (Inr u, stored') \<Rightarrow> (Inr (), stored'))))"

section \<open>Schemas (models/schemas.py)\<close>

text \<open>
  \<open>processed_results\<close> is a Python list that holds \<^verbatim>\<open>ResumeSummary\<close> objects,
  \<^verbatim>\<open>ResumeAnalysis\<close> objects and, from the branch of line 111, a dictionary with the keys
  \<^verbatim>\<open>file_name\<close> and \<^verbatim>\<open>error\<close>. The response models declare
  \<^verbatim>\<open>results: List[ResumeSummary]\<close> and \<^verbatim>\<open>results: List[ResumeAnalysis]\<close>: building a
  response validates every element and raises on one of the wrong shape.
\<close>

datatype resume_result =
    ResumeSummary string string
  | ResumeAnalysis string string
  | ErrorDict string string

fun file_name :: "resume_result \<Rightarrow> string" where
  "file_name (ResumeSummary n s) = n"
| "file_name (ResumeAnalysis n a) = n"
| "file_name (ErrorDict n e) = n"

fun is_summary :: "resume_result \<Rightarrow> bool" where
  "is_summary (ResumeSummary n s) = True"
| "is_summary r = False"

fun is_analysis :: "resume_result \<Rightarrow> bool" where
  "is_analysis (ResumeAnalysis n a) = True"
| "is_analysis r = False"

datatype response =
    SummaryResponse string "resume_result list"
  | AnalysisResponse string string "resume_result list"

fun results :: "response \<Rightarrow> resume_result list" where
  "results (SummaryResponse rid rs) = rs"
| "results (AnalysisResponse rid q rs) = rs"

definition validation_error :: exn where
  "validation_error = Exn ''validation error''"

definition new_SummaryResponse :: "string \<Rightarrow> resume_result list \<Rightarrow> exn + response" where
  "new_SummaryResponse rid rs =
     (if list_all is_summary rs then Inr (SummaryResponse rid rs) else Inl validation_error)"

definition new_AnalysisResponse :: "string \<Rightarrow> string \<Rightarrow> resume_result list \<Rightarrow> exn + response" where
  "new_AnalysisResponse rid q rs =
     (if list_all is_analysis rs then Inr (AnalysisResponse rid q rs) else Inl validation_error)"

section \<open>Endpoint (main.py)\<close>

record upload_file =
  filename :: string
  content_type :: "string option"
  read_result :: "exn + bytes"  \<comment> \<open>what \<^verbatim>\<open>await file.read()\<close> gives\<close>

definition ALLOWED_EXTENSIONS :: "string set" where
  "ALLOWED_EXTENSIONS = {''pdf'', ''png'', ''jpg'', ''jpeg''}"

definition ALLOWED_MIME_TYPES :: "string set" where
  "ALLOWED_MIME_TYPES = {''application/pdf'', ''image/png'', ''image/jpeg''}"

definition get_file_extension :: "string \<Rightarrow> string option" where
  "get_file_extension fname =
     (if CHR ''.'' \<in> set fname then Some (lower (last (split (CHR ''.'') fname))) else None)"

text \<open>
  A query is tested by its truth value throughout (\<^verbatim>\<open>if query\<close>, \<^verbatim>\<open>if not query\<close>):
  \<^verbatim>\<open>None\<close> and the empty string are false. \<open>given_query\<close> is the query when it is
  true.
\<close>

definition given_query :: "string option \<Rightarrow> string option" where
  "given_query query = (case query of None \<Rightarrow> None | Some q \<Rightarrow> if q = [] then None else Some q)"

text \<open>
  The steps of one request that reach outside the handler, in the order they happen: the
  check of a file in the validation loop, the read of an upload, a call of the OCR adapter,
  the close of an upload, a call of the inference adapter, and the call of \<^verbatim>\<open>log_usage\<close>
  with its arguments.
\<close>

datatype event =
    CheckFile string
  | ReadFile string
  | ExtractPdf string
  | ExtractImage string
  | CloseFile string
  | Analyze string
  | Summarize string
  | LogUsage string string "string option" result_summary

datatype failure =
    HTTPException nat string
  | Unhandled exn

text \<open>
  The validation loop, lines 81 to 92. Lines 90 to 92 stand one column to the right of the
  loop body's column in the source; they are read as the rest of the loop body, after the
  MIME check. \<open>mime_order\<close> is the order in which Python iterates the set
  \<^verbatim>\<open>ALLOWED_MIME_TYPES\<close> for the message.
\<close>

fun validate_files ::
  "string list \<Rightarrow> upload_file list \<Rightarrow> event list \<Rightarrow> (failure + unit) \<times> event list" where
  "validate_files mime_order [] tr = (Inr (), tr)"
| "validate_files mime_order (file # files) tr =
     (let tr' = tr @ [CheckFile (filename file)] in
      if content_type file \<notin> Some ` ALLOWED_MIME_TYPES
      then (Inl (HTTPException 400
                  (''Tipo de arquivo inv'' @ [CHR 0xE1] @ ''lido: '' @ filename file
                     @ ''. Tipos permitidos: '' @ join '', '' mime_order)), tr')
      else
        let ext = get_file_extension (filename file) in
        if ext = None \<or> ext = Some [] \<or> ext \<notin> Some ` ALLOWED_EXTENSIONS
        then (Inl (HTTPException 400
                    (''Extens'' @ [CHR 0xE3] @ ''o de arquivo inv'' @ [CHR 0xE1] @ ''lida: ''
                       @ filename file)), tr')
        else validate_files mime_order files tr')"

definition no_text_message :: string where
  "no_text_message = ''Nenhum texto extra'' @ [CHR 0xED] @ ''do do arquivo.''"

definition unsupported_message :: string where
  "unsupported_message =
     ''Tipo de arquivo n'' @ [CHR 0xE3] @ ''o suportado ou erro na leitura inicial.''"

text \<open>
  The libraries and module state one request runs against.
\<close>

record ('img, 'tok, 'out) env =
  ocr :: "'img ocr_lib"
  llm :: "('tok, 'out) llm_lib"
  database :: db
  mime_order :: "string list"

datatype tally = Processed | Failed

text \<open>
  The body of the \<^verbatim>\<open>try\<close> of the processing loop (lines 96 to 156) for one file: the
  steps it takes, and either the exception that leaves it or the result it appends and the
  counter it increments.
\<close>

definition infer ::
  "('tok, 'out) llm_lib \<Rightarrow> string option \<Rightarrow> string \<Rightarrow> string
     \<Rightarrow> event list \<times> (exn + resume_result \<times> tally)" where
  \<comment> \<open>lines 143 to 156\<close>
  "infer l query n text_content =
     (case given_query query of
        Some q \<Rightarrow>
          ([Analyze n],
           bind_exn (analyze_resume_with_query l text_content q 200) (\<lambda>analysis_result.
           Inr (ResumeAnalysis n analysis_result, Processed)))
      | None \<Rightarrow>
          ([Summarize n],
           bind_exn (generate_summary l text_content 150 30) (\<lambda>summary_result.
           Inr (ResumeSummary n summary_result, Processed))))"

definition after_extraction ::
  "('tok, 'out) llm_lib \<Rightarrow> string option \<Rightarrow> string \<Rightarrow> string
     \<Rightarrow> event list \<times> (exn + resume_result \<times> tally)" where
  \<comment> \<open>lines 120 to 156\<close>
  "after_extraction l query n text_content =
     (if strip text_content = []
      then ([CloseFile n],
            Inr (case given_query query of
                   Some q \<Rightarrow> ResumeAnalysis n no_text_message
                 | None \<Rightarrow> ResumeSummary n no_text_message, Failed))
      else (case infer l query n text_content of
              (evs, r) \<Rightarrow> (CloseFile n # evs, r)))"

definition try_file ::
  "('img, 'tok, 'out) env \<Rightarrow> string option \<Rightarrow> upload_file
     \<Rightarrow> event list \<times> (exn + resume_result \<times> tally)" where
  "try_file env query file =
     (let n = filename file in
      case read_result file of
        Inl e \<Rightarrow> ([ReadFile n], Inl e)
      | Inr file_bytes \<Rightarrow>
          if content_type file = Some ''application/pdf''
          then (case extract_text_from_pdf_bytes (ocr env) file_bytes of
                  Inl e \<Rightarrow> ([ReadFile n, ExtractPdf n], Inl e)
                | Inr text_content \<Rightarrow>
                    (case after_extraction (llm env) query n text_content of
                       (evs, r) \<Rightarrow> ([ReadFile n, ExtractPdf n] @ evs, r)))
          else if content_type file \<in> {Some ''image/png'', Some ''image/jpeg''}
          then (case extract_text_from_image_bytes (ocr env) file_bytes of
                  Inl e \<Rightarrow> ([ReadFile n, ExtractImage n], Inl e)
                | Inr text_content \<Rightarrow>
                    (case after_extraction (llm env) query n text_content of
                       (evs, r) \<Rightarrow> ([ReadFile n, ExtractImage n] @ evs, r)))
          else ([ReadFile n], Inr (ErrorDict n unsupported_message, Failed)))"

record loop_state =
  processed_results :: "resume_result list"
  log_result_summary :: result_summary
  trace :: "event list"

definition count_processed :: "loop_state \<Rightarrow> loop_state" where
  \<comment> \<open>\<^verbatim>\<open>log_result_summary["files_processed"] += 1\<close>\<close>
  "count_processed st =
     st\<lparr>log_result_summary :=
          (log_result_summary st)\<lparr>files_processed := files_processed (log_result_summary st) + 1\<rparr>\<rparr>"

definition count_failed :: "loop_state \<Rightarrow> loop_state" where
  \<comment> \<open>\<^verbatim>\<open>log_result_summary["files_failed"] += 1\<close>\<close>
  "count_failed st =
     st\<lparr>log_result_summary :=
          (log_result_summary st)\<lparr>files_failed := files_failed (log_result_summary st) + 1\<rparr>\<rparr>"

definition append_result :: "resume_result \<Rightarrow> loop_state \<Rightarrow> loop_state" where
  \<comment> \<open>\<^verbatim>\<open>processed_results.append(r)\<close>\<close>
  "append_result r st = st\<lparr>processed_results := processed_results st @ [r]\<rparr>"

definition error_message :: "exn \<Rightarrow> string" where
  \<comment> \<open>line 164\<close>
  "error_message e = ''Erro ao processar o arquivo: '' @ str_exn e"

definition error_result :: "string option \<Rightarrow> string \<Rightarrow> exn \<Rightarrow> resume_result" where
  \<comment> \<open>lines 165 to 172\<close>
  "error_result query n e =
     (case given_query query of
        Some q \<Rightarrow> ResumeAnalysis n (error_message e)
      | None \<Rightarrow> ResumeSummary n (error_message e))"

definition process_file ::
  "('img, 'tok, 'out) env \<Rightarrow> string option \<Rightarrow> upload_file \<Rightarrow> loop_state \<Rightarrow> loop_state" where
  \<comment> \<open>one turn of the processing loop, lines 95 to 175\<close>
  "process_file env query file st =
     (case try_file env query file of
        (evs, Inr (r, Processed)) \<Rightarrow>
          count_processed (append_result r (st\<lparr>trace := trace st @ evs\<rparr>))
      | (evs, Inr (r, Failed)) \<Rightarrow>
          count_failed (append_result r (st\<lparr>trace := trace st @ evs\<rparr>))
      | (evs, Inl e) \<Rightarrow>
          count_failed
            (append_result (error_result query (filename file) e) (st\<lparr>trace := trace st @ evs\<rparr>)))"

fun process_files ::
  "('img, 'tok, 'out) env \<Rightarrow> string option \<Rightarrow> upload_file list \<Rightarrow> loop_state \<Rightarrow> loop_state" where
  "process_files env query [] st = st"
| "process_files env query (file # files) st =
     process_files env query files (process_file env query file st)"

definition initial_state :: "string option \<Rightarrow> event list \<Rightarrow> loop_state" where
  \<comment> \<open>lines 73 to 78, with the steps taken so far\<close>
  "initial_state query tr =
     \<lparr>processed_results = [],
      log_result_summary =
        \<lparr>files_processed = 0, files_failed = 0,
         operation_type = (if given_query query = None then ''summary'' else ''analysis'')\<rparr>,
      trace = tr\<rparr>"

definition build_response :: "string \<Rightarrow> string option \<Rightarrow> resume_result list \<Rightarrow> exn + response" where
  \<comment> \<open>lines 180 to 185\<close>
  "build_response request_id query rs =
     (case given_query query of
        Some q \<Rightarrow> new_AnalysisResponse request_id q rs
      | None \<Rightarrow> new_SummaryResponse request_id rs)"

text \<open>
  The handler returns its outcome (the response, or the exception that leaves it), the
  steps it took, and the content of the log collection afterwards.
\<close>

definition process_resumes_endpoint ::
  "('img, 'tok, 'out) env \<Rightarrow> upload_file list \<Rightarrow> string \<Rightarrow> string \<Rightarrow> string option
     \<Rightarrow> log_document list \<Rightarrow> (failure + response) \<times> event list \<times> log_document list" where
  "process_resumes_endpoint env files user_id request_id query stored =
     (case validate_files (mime_order env) files [] of
        (Inl h, tr) \<Rightarrow> (Inl h, tr, stored)
      | (Inr u, tr) \<Rightarrow>
          let st = process_files env query files (initial_state query tr);
              tr' = trace st @ [LogUsage request_id user_id query (log_result_summary st)]
          in (case log_usage (database env) request_id user_id query (log_result_summary st) stored of
                (Inl e, stored') \<Rightarrow> (Inl (Unhandled e), tr', stored')
              | (Inr u', stored') \<Rightarrow>
                  (case build_response request_id query (processed_results st) of
                     Inl e \<Rightarrow> (Inl (Unhandled e), tr', stored')
                   | Inr resp \<Rightarrow> (Inr resp, tr', stored'))))"

section \<open>Notions the properties are stated with\<close>

text \<open>
  A file passes validation when its MIME type is one of the allowed ones and its extension,
  as \<open>get_file_extension\<close> gives it, is one of the allowed ones.
\<close>

definition valid_file :: "upload_file \<Rightarrow> bool" where
  "valid_file file =
     (content_type file \<in> Some ` ALLOWED_MIME_TYPES
      \<and> get_file_extension (filename file) \<in> Some ` ALLOWED_EXTENSIONS)"

text \<open>
  The text extracted from the bytes of a file: by the PDF extractor or the image extractor,
  after the file's MIME type; none for another MIME type.
\<close>

definition extracted_text :: "('img, 'tok, 'out) env \<Rightarrow> upload_file \<Rightarrow> bytes \<Rightarrow> string option" where
  "extracted_text env file file_bytes =
     (if content_type file = Some ''application/pdf''
      then (case extract_text_from_pdf_bytes (ocr env) file_bytes of
              Inl e \<Rightarrow> None | Inr t \<Rightarrow> Some t)
      else if content_type file \<in> {Some ''image/png'', Some ''image/jpeg''}
      then (case extract_text_from_image_bytes (ocr env) file_bytes of
              Inl e \<Rightarrow> None | Inr t \<Rightarrow> Some t)
      else None)"

text \<open>
  What page number \<open>k\<close> contributes to the text of a PDF: the error header when saving the
  page's image raises; otherwise the page header followed by the stripped OCR text of the
  saved image, which is empty when opening the image or the OCR raises.
\<close>

definition page_entry :: "'img ocr_lib \<Rightarrow> nat \<Rightarrow> 'img \<Rightarrow> string" where
  "page_entry lib k img =
     (case image_save_png lib img of
        Inl e \<Rightarrow> page_error_header k
      | Inr png \<Rightarrow>
          page_header k @
            (case image_open lib png of
               Inl e \<Rightarrow> []
             | Inr im \<Rightarrow>
                 (case image_to_string lib im TESSERACT_LANG of
                    Inl e \<Rightarrow> []
                  | Inr text \<Rightarrow> strip text)))"





fun is_file_step :: "event \<Rightarrow> bool" where
  \<comment> \<open>a step of the processing loop\<close>
  "is_file_step (CheckFile n) = False"
| "is_file_step (LogUsage r u q s) = False"
| "is_file_step e = True"


definition file_steps :: "('img, 'tok, 'out) env \<Rightarrow> string option \<Rightarrow> upload_file \<Rightarrow> event list" where
  \<comment> \<open>the steps of one turn of the processing loop\<close>
  "file_steps env query file = fst (try_file env query file)"

definition file_result :: "('img, 'tok, 'out) env \<Rightarrow> string option \<Rightarrow> upload_file \<Rightarrow> resume_result" where
  \<comment> \<open>the result one turn of the processing loop appends\<close>
  "file_result env query file =
     (case snd (try_file env query file) of
        Inr (r, t) \<Rightarrow> r
      | Inl e \<Rightarrow> error_result query (filename file) e)"

definition file_processed :: "('img, 'tok, 'out) env \<Rightarrow> string option \<Rightarrow> upload_file \<Rightarrow> bool" where
  \<comment> \<open>whether one turn of the processing loop counts the file as processed\<close>
  "file_processed env query file =
     (case snd (try_file env query file) of
        Inr (r, Processed) \<Rightarrow> True
      | Inr (r, Failed) \<Rightarrow> False
      | Inl e \<Rightarrow> False)"


section \<open>Example libraries and requests\<close>

text \<open>
  An imaging library whose images are numbers: a PDF's pages are its bytes, page 7 cannot
  be saved, a saved page \<open>k\<close> has \<open>k\<close> bytes, an image is opened as its length, no bytes
  cannot be opened, OCR raises on image 1, reads blanks on image 2 and a name otherwise.
\<close>

definition ex_ocr :: "nat ocr_lib" where
  "ex_ocr =
     \<lparr>image_open = (\<lambda>b. if b = [] then Inl (Exn ''cannot identify image file'') else Inr (length b)),
      image_to_string =
        (\<lambda>img lang. if img = 1 then Inl (Exn ''tesseract failed'')
                    else if img = 2 then Inr ''  '' else Inr '' Ana Silva ''),
      convert_from_bytes = (\<lambda>b dpi. if b = [] then Inl (Exn ''not a PDF'') else Inr b),
      image_save_png = (\<lambda>img. if img = 7 then Inl (Exn ''cannot save'') else Inr (replicate img 0))\<rparr>"

text \<open>
  A model library that echoes: the tokens are the prompt, the model returns them and the
  decoder gives them back, so an answer is the prompt it was asked with. The tokenizer
  raises on a summary prompt (limit 512) of more than 40 characters.
\<close>

definition ex_llm :: "(string, string) llm_lib" where
  "ex_llm =
     \<lparr>text2text_generator = True,
      tokenizer =
        (\<lambda>prompt n. if n = 512 \<and> 40 < length prompt then Inl (Exn ''tokenizer failed'')
                     else Inr prompt),
      model_generate = (\<lambda>inputs args. Inr [inputs]),
      tokenizer_decode = (\<lambda>out. Inr out)\<rparr>"

definition ex_db :: db where
  \<comment> \<open>a collection whose handle tests true and whose inserts succeed\<close>
  "ex_db =
     \<lparr>logs_collection = Some \<lparr>truth_value = Inr True, insert_result = (\<lambda>doc. None)\<rparr>,
      utcnow = 0\<rparr>"

definition ex_db_down :: db where
  \<comment> \<open>no collection: the connection failed at import\<close>
  "ex_db_down = \<lparr>logs_collection = None, utcnow = 0\<rparr>"

definition truth_test_error :: exn where
  "truth_test_error =
     Exn ''Collection objects do not implement truth value testing or bool().''"

definition ex_db_live :: db where
  \<comment> \<open>a connected collection of the driver's version 4: its truth test raises, its inserts succeed\<close>
  "ex_db_live =
     \<lparr>logs_collection = Some \<lparr>truth_value = Inl truth_test_error, insert_result = (\<lambda>doc. None)\<rparr>,
      utcnow = 0\<rparr>"

definition ex_env :: "(nat, string, string) env" where
  "ex_env =
     \<lparr>ocr = ex_ocr, llm = ex_llm, database = ex_db,
      mime_order = [''application/pdf'', ''image/png'', ''image/jpeg'']\<rparr>"

definition ex_png :: upload_file where
  \<comment> \<open>an image with text\<close>
  "ex_png = \<lparr>filename = ''ana.PNG'', content_type = Some ''image/png'', read_result = Inr [0, 0, 0]\<rparr>"


definition ex_pdf :: upload_file where
  \<comment> \<open>a PDF of three pages: a page with text, a page that cannot be saved, a page on which OCR raises\<close>
  "ex_pdf = \<lparr>filename = ''cv.pdf'', content_type = Some ''application/pdf'', read_result = Inr [3, 7, 1]\<rparr>"

definition ex_txt :: upload_file where
  \<comment> \<open>a file of a MIME type that is not allowed\<close>
  "ex_txt = \<lparr>filename = ''notes.txt'', content_type = Some ''text/plain'', read_result = Inr [0]\<rparr>"

definition ex_exe :: upload_file where
  \<comment> \<open>a file of an allowed MIME type under an extension that is not allowed\<close>
  "ex_exe = \<lparr>filename = ''cv.pdf.EXE'', content_type = Some ''application/pdf'', read_result = Inr [3]\<rparr>"

definition ex_env_live :: "(nat, string, string) env" where
  \<comment> \<open>the example libraries with the connected collection\<close>
  "ex_env_live = ex_env\<lparr>database := ex_db_live\<rparr>"

definition ex_env_down :: "(nat, string, string) env" where
  \<comment> \<open>the example libraries with no collection\<close>
  "ex_env_down = ex_env\<lparr>database := ex_db_down\<rparr>"

definition ex_pdf_ocr :: upload_file where
  \<comment> \<open>a PDF of one page on which OCR raises\<close>
  "ex_pdf_ocr = \<lparr>filename = ''scan.pdf'', content_type = Some ''application/pdf'', read_result = Inr [1]\<rparr>"

definition ex_png_ocr :: upload_file where
  \<comment> \<open>an image on which OCR raises\<close>
  "ex_png_ocr = \<lparr>filename = ''scan.png'', content_type = Some ''image/png'', read_result = Inr [0]\<rparr>"

section \<open>The logger, the validation loop and the processing loop\<close>






lemma empty_not_allowed: "[] \<notin> ALLOWED_EXTENSIONS"
  by (simp add: ALLOWED_EXTENSIONS_def)


lemma validate_files_bad:
  "\<not> list_all valid_file files \<Longrightarrow>
   \<exists>d k. k < length files \<and> \<not> valid_file (files ! k) \<and> list_all valid_file (take k files) \<and>
     validate_files mo files tr =
       (Inl (HTTPException 400 d), tr @ map (\<lambda>f. CheckFile (filename f)) (take (Suc k) files))"
proof (induction files arbitrary: tr)
  case Nil
  then show ?case by simp
next
  case (Cons f files)
  show ?case
  proof (cases "valid_file f")
    case True
    with Cons.prems have "\<not> list_all valid_file files" by simp
    from Cons.IH[OF this, of "tr @ [CheckFile (filename f)]"]
    obtain d k where k: "k < length files" "\<not> valid_file (files ! k)" "list_all valid_file (take k files)"
      "validate_files mo files (tr @ [CheckFile (filename f)]) =
        (Inl (HTTPException 400 d), (tr @ [CheckFile (filename f)]) @ map (\<lambda>f. CheckFile (filename f)) (take (Suc k) files))"
      by blast
    have "validate_files mo (f # files) tr = validate_files mo files (tr @ [CheckFile (filename f)])"
      using True by (auto simp: valid_file_def Let_def empty_not_allowed)
    with k True show ?thesis
      by (intro exI[of _ d] exI[of _ "Suc k"]) simp
  next
    case False
    then have "\<exists>d. validate_files mo (f # files) tr = (Inl (HTTPException 400 d), tr @ [CheckFile (filename f)])"
      by (auto simp: valid_file_def Let_def)
    then obtain d where "validate_files mo (f # files) tr = (Inl (HTTPException 400 d), tr @ [CheckFile (filename f)])" ..
    with False show ?thesis
      by (intro exI[of _ d] exI[of _ 0]) simp
  qed
qed

lemma infer_steps: "infer l q n t = (evs, r) \<Longrightarrow> e \<in> set evs \<Longrightarrow> is_file_step e"
  by (auto simp: infer_def split: option.splits)

lemma after_extraction_steps:
  "after_extraction l q n t = (evs, r) \<Longrightarrow> e \<in> set evs \<Longrightarrow> is_file_step e"
  by (auto simp: after_extraction_def split: prod.splits if_splits dest: infer_steps)

lemma try_file_steps: "e \<in> set (fst (try_file env q f)) \<Longrightarrow> is_file_step e"
  by (auto simp: try_file_def Let_def split: sum.splits prod.splits if_splits
      dest: after_extraction_steps)

lemma infer_name: "infer l q n t = (evs, Inr (r, c)) \<Longrightarrow> file_name r = n"
  by (auto simp: infer_def bind_exn_def split: option.splits sum.splits)

lemma after_extraction_name: "after_extraction l q n t = (evs, Inr (r, c)) \<Longrightarrow> file_name r = n"
  by (auto simp: after_extraction_def split: prod.splits option.splits if_splits dest: infer_name)

lemma try_file_name: "try_file env q f = (evs, Inr (r, c)) \<Longrightarrow> file_name r = filename f"
  by (auto simp: try_file_def Let_def split: sum.splits prod.splits if_splits
      dest: after_extraction_name)

lemma error_result_name: "file_name (error_result q n e) = n"
  by (simp add: error_result_def split: option.splits)

lemma file_result_name: "file_name (file_result env q f) = filename f"
  by (cases "try_file env q f")
     (auto simp: file_result_def error_result_name split: sum.splits dest: try_file_name)















lemma endpoint_invalid:
  assumes "\<not> list_all valid_file files"
  shows "\<exists>d k. k < length files \<and> \<not> valid_file (files ! k) \<and> list_all valid_file (take k files) \<and>
    process_resumes_endpoint env files uid rid q stored =
      (Inl (HTTPException 400 d), map (\<lambda>f. CheckFile (filename f)) (take (Suc k) files), stored)"
proof -
  from validate_files_bad[OF assms, of "mime_order env" "[]"]
  obtain d k where k: "k < length files" "\<not> valid_file (files ! k)" "list_all valid_file (take k files)"
    "validate_files (mime_order env) files [] =
       (Inl (HTTPException 400 d), map (\<lambda>f. CheckFile (filename f)) (take (Suc k) files))"
    by auto
  show ?thesis
    by (intro exI[of _ d] exI[of _ k]) (simp add: k process_resumes_endpoint_def)
qed


lemma pdf_pages_closed:
  "pdf_pages lib i images acc =
     acc @ concat (map (\<lambda>(j, img). page_entry lib (j + 1) img) (enumerate i images))"
proof (induction images arbitrary: i acc)
  case Nil
  then show ?case by simp
next
  case (Cons img images)
  show ?case
    by (simp add: Cons.IH page_entry_def page_text_def extract_text_from_image_bytes_def
        try_except_def bind_exn_def split: sum.splits)
qed

lemma try_file_text:
  assumes "read_result f = Inr b" "extracted_text env f b = Some t"
  shows "try_file env q f =
     (case after_extraction (llm env) q (filename f) t of
        (evs, r) \<Rightarrow> (ReadFile (filename f) #
           (if content_type f = Some ''application/pdf'' then ExtractPdf (filename f)
            else ExtractImage (filename f)) # evs, r))"
  using assms
  by (auto simp: try_file_def extracted_text_def Let_def split: sum.splits if_splits prod.splits)







lemma file_result_text:
  assumes "read_result f = Inr b" "extracted_text env f b = Some t" "strip t \<noteq> []"
  shows "file_result env q f =
     (case given_query q of
        Some x \<Rightarrow>
          (case analyze_resume_with_query (llm env) t x 200 of
             Inr a \<Rightarrow> ResumeAnalysis (filename f) a
           | Inl e \<Rightarrow> ResumeAnalysis (filename f) (error_message e))
      | None \<Rightarrow>
          (case generate_summary (llm env) t 150 30 of
             Inr s \<Rightarrow> ResumeSummary (filename f) s
           | Inl e \<Rightarrow> ResumeSummary (filename f) (error_message e)))"
  by (simp add: file_result_def try_file_text[OF assms(1,2)] after_extraction_def assms(3)
      infer_def bind_exn_def error_result_def split: option.splits sum.splits prod.splits)

lemma file_processed_text:
  assumes "read_result f = Inr b" "extracted_text env f b = Some t" "strip t \<noteq> []"
  shows "file_processed env q f =
     (case given_query q of
        Some x \<Rightarrow> \<not> isl (analyze_resume_with_query (llm env) t x 200)
      | None \<Rightarrow> \<not> isl (generate_summary (llm env) t 150 30))"
  by (simp add: file_processed_def try_file_text[OF assms(1,2)] after_extraction_def assms(3)
      infer_def bind_exn_def split: option.splits sum.splits prod.splits)

lemma given_query_Some: "given_query query = Some q \<longleftrightarrow> query = Some q \<and> q \<noteq> []"
  by (auto simp: given_query_def split: option.splits)

lemma given_query_None: "given_query query = None \<longleftrightarrow> query = None \<or> query = Some []"
  by (auto simp: given_query_def split: option.splits)

lemma try_file_inference_raises:
  assumes "read_result f = Inr b" "extracted_text env f b = Some t" "strip t \<noteq> []"
    and "(case given_query q of
            Some x \<Rightarrow> analyze_resume_with_query (llm env) t x 200
          | None \<Rightarrow> generate_summary (llm env) t 150 30) = Inl e"
  shows "snd (try_file env q f) = Inl e"
  using assms(4)
  by (simp add: try_file_text[OF assms(1,2)] after_extraction_def assms(3)
      infer_def bind_exn_def split: option.splits sum.splits prod.splits)





section \<open>The OCR adapter\<close>

text \<open>
  C9. \<open>extract_text_from_image_bytes\<close> and \<open>extract_text_from_pdf_bytes\<close> never raise: on every
  input and whatever the libraries do, each returns a string. When opening the image or the
  OCR raises, the image extractor returns the empty string; when the conversion of the PDF
  to images raises, the PDF extractor returns the empty string.
\<close>

theorem ocr_extractors_never_raise:
  "(\<exists>t. extract_text_from_image_bytes lib b = Inr t)
   \<and> (\<exists>t. extract_text_from_pdf_bytes lib b = Inr t)
   \<and> (image_open lib b1 = Inl e1 \<longrightarrow> extract_text_from_image_bytes lib b1 = Inr [])
   \<and> (image_open lib b2 = Inr img \<and> image_to_string lib img TESSERACT_LANG = Inl e2
        \<longrightarrow> extract_text_from_image_bytes lib b2 = Inr [])
   \<and> (convert_from_bytes lib b3 200 = Inl e3 \<longrightarrow> extract_text_from_pdf_bytes lib b3 = Inr [])"
  by (simp add: extract_text_from_image_bytes_def extract_text_from_pdf_bytes_def
      try_except_def bind_exn_def split: sum.splits)

theorem ocr_extractors_never_raise_witness:
  "image_open ex_ocr [] = Inl (Exn ''cannot identify image file'')
   \<and> extract_text_from_image_bytes ex_ocr [] = Inr []
   \<and> image_open ex_ocr [0] = Inr 1
   \<and> image_to_string ex_ocr 1 TESSERACT_LANG = Inl (Exn ''tesseract failed'')
   \<and> extract_text_from_image_bytes ex_ocr [0] = Inr []
   \<and> convert_from_bytes ex_ocr [] 200 = Inl (Exn ''not a PDF'')
   \<and> extract_text_from_pdf_bytes ex_ocr [] = Inr []"
proof -
  have h1: "image_open ex_ocr [] = Inl (Exn ''cannot identify image file'')"
    by (simp add: ex_ocr_def)
  have h2: "image_open ex_ocr [0] = Inr 1"
    by (simp add: ex_ocr_def)
  have h3: "image_to_string ex_ocr 1 TESSERACT_LANG = Inl (Exn ''tesseract failed'')"
    by (simp add: ex_ocr_def)
  have h4: "convert_from_bytes ex_ocr [] 200 = Inl (Exn ''not a PDF'')"
    by (simp add: ex_ocr_def)
  show ?thesis
    using ocr_extractors_never_raise
      [of ex_ocr "[]" "[]" "Exn ''cannot identify image file''" "[0]" 1 "Exn ''tesseract failed''"
          "[]" "Exn ''not a PDF''"]
      h1 h2 h3 h4
    by simp
qed

text \<open>
  The text of a PDF in closed form: stripped of leading and trailing whitespace, the
  concatenation in page order of what each page contributes; nothing when the conversion
  raises. A page contributes the error header only when saving its image raises.
\<close>

lemma extract_text_from_pdf_bytes_pages:
  "extract_text_from_pdf_bytes lib pdf_bytes =
     Inr (case convert_from_bytes lib pdf_bytes 200 of
            Inl e \<Rightarrow> []
          | Inr images \<Rightarrow>
              strip (concat (map (\<lambda>(i, img). page_entry lib (i + 1) img) (enumerate 0 images))))"
  by (simp add: extract_text_from_pdf_bytes_def try_except_def bind_exn_def pdf_pages_closed
      split: sum.splits)

text \<open>
  C7, where the code departs from the claim. The page loop means a page whose extraction
  fails to contribute the error header (lines 45 to 47), but \<open>extract_text_from_image_bytes\<close>
  catches a failure of the OCR itself and returns the empty string. On a PDF of one page
  on which the OCR raises, the text returned is the ordinary header of page 1 and not the
  error header. The endpoint then takes the header for the resume's text: the PDF is sent
  to inference and counted as processed, where an image on which the OCR raises is
  counted as failed with the fixed message.
\<close>

theorem pdf_page_ocr_failure_gets_plain_header:
  "image_save_png ex_ocr 1 = Inr [0]
   \<and> image_open ex_ocr [0] = Inr 1
   \<and> image_to_string ex_ocr 1 TESSERACT_LANG = Inl (Exn ''tesseract failed'')
   \<and> extract_text_from_pdf_bytes ex_ocr [1] = Inr (''--- P'' @ [CHR 0xE1] @ ''gina 1 ---'')
   \<and> extract_text_from_pdf_bytes ex_ocr [1] \<noteq> Inr (strip (page_error_header 1))
   \<and> file_processed ex_env (Some ''Python'') ex_pdf_ocr
   \<and> file_steps ex_env (Some ''Python'') ex_pdf_ocr
       = [ReadFile ''scan.pdf'', ExtractPdf ''scan.pdf'', CloseFile ''scan.pdf'', Analyze ''scan.pdf'']
   \<and> \<not> file_processed ex_env (Some ''Python'') ex_png_ocr
   \<and> file_result ex_env (Some ''Python'') ex_png_ocr = ResumeAnalysis ''scan.png'' no_text_message"
  by code_simp

section \<open>The usage logger\<close>

text \<open>
  C6, where the code departs from the claim. \<open>log_usage\<close> is meant never to raise, but the
  truth test of line 30 stands outside the \<^verbatim>\<open>try\<close>: on a connected collection whose handle
  raises on the truth test, \<open>log_usage\<close> raises, and so does the endpoint, which returns a
  response for the same request when there is no collection.
\<close>

theorem log_usage_raises_on_truth_test:
  "log_usage ex_db_live ''r1'' ''u'' None
     \<lparr>files_processed = 1, files_failed = 0, operation_type = ''summary''\<rparr> []
     = (Inl truth_test_error, [])
   \<and> fst (process_resumes_endpoint ex_env_live [ex_png] ''u'' ''r1'' None [])
       = Inl (Unhandled truth_test_error)
   \<and> fst (process_resumes_endpoint ex_env_down [ex_png] ''u'' ''r1'' None [])
       = Inr (SummaryResponse ''r1'' [ResumeSummary ''ana.PNG'' ''summarize: Ana Silva''])"
  by code_simp

section \<open>The endpoint\<close>

text \<open>
  In the statements below a query is given when it is a non-empty string; \<^verbatim>\<open>None\<close> and the
  empty string both count as no query, as the handler's tests \<^verbatim>\<open>if query\<close> have it.
\<close>

text \<open>
  C1, where the code departs from the claim. For a request whose files pass validation
  the handler answers the query, or summarizes, file by file; the call of \<open>log_usage\<close> in
  line 178 stands outside every \<^verbatim>\<open>try\<close>, so with a connected collection whose handle raises
  on the truth test the handler raises after the loop and returns no response, in both
  modes. With a collection whose handle tests true, the same requests return the
  \<open>AnalysisResponse\<close> with the submitted query and the \<open>SummaryResponse\<close>, with the id submitted.
\<close>

theorem endpoint_raises_instead_of_responding:
  "list_all valid_file [ex_png]
   \<and> process_resumes_endpoint ex_env_live [ex_png] ''u'' ''r1'' (Some ''Python'') []
       = (Inl (Unhandled truth_test_error),
          [CheckFile ''ana.PNG'', ReadFile ''ana.PNG'', ExtractImage ''ana.PNG'',
           CloseFile ''ana.PNG'', Analyze ''ana.PNG'',
           LogUsage ''r1'' ''u'' (Some ''Python'')
             \<lparr>files_processed = 1, files_failed = 0, operation_type = ''analysis''\<rparr>],
          [])
   \<and> fst (process_resumes_endpoint ex_env_live [ex_png] ''u'' ''r1'' None [])
       = Inl (Unhandled truth_test_error)
   \<and> fst (process_resumes_endpoint ex_env [ex_png] ''u'' ''r1'' (Some ''Python'') [])
       = Inr (AnalysisResponse ''r1'' ''Python''
               [ResumeAnalysis ''ana.PNG'' (''Based on the following resume text, answer the question. Resume text: '' @ [CHR 0x22] @ ''Ana Silva'' @ [CHR 0x22] @ ''. Question: '' @ [CHR 0x22] @ ''Python'' @ [CHR 0x22])])
   \<and> fst (process_resumes_endpoint ex_env [ex_png] ''u'' ''r1'' None [])
       = Inr (SummaryResponse ''r1'' [ResumeSummary ''ana.PNG'' ''summarize: Ana Silva''])"
  by code_simp


text \<open>
  C3. For every request with a file whose MIME type is not one of the allowed ones, or
  whose extension (lowercased; none when the name has no dot) is not one of the allowed
  ones, the endpoint fails with HTTP status 400; the only steps taken are file checks, so
  no file is read, extracted or sent to inference and \<open>log_usage\<close> is not called, and the
  log collection is left as it was.
\<close>

theorem invalid_file_rejected:
  assumes "file \<in> set files"
    and "content_type file \<notin> Some ` ALLOWED_MIME_TYPES
         \<or> get_file_extension (filename file) \<notin> Some ` ALLOWED_EXTENSIONS"
  shows "\<exists>detail tr.
           process_resumes_endpoint env files user_id request_id query stored
             = (Inl (HTTPException 400 detail), tr, stored)
           \<and> (\<forall>e\<in>set tr. \<exists>n. e = CheckFile n)"
proof -
  have "\<not> valid_file file"
    using assms(2) by (auto simp: valid_file_def)
  with assms(1) have "\<not> list_all valid_file files"
    by (auto simp: list_all_iff)
  from endpoint_invalid[OF this, of env user_id request_id query stored]
  obtain d k where
    "process_resumes_endpoint env files user_id request_id query stored =
      (Inl (HTTPException 400 d), map (\<lambda>f. CheckFile (filename f)) (take (Suc k) files), stored)"
    by blast
  then show ?thesis
    by (intro exI[of _ d] exI[of _ "map (\<lambda>f. CheckFile (filename f)) (take (Suc k) files)"]) auto
qed

theorem invalid_file_rejected_witness:
  "ex_txt \<in> set [ex_png, ex_txt, ex_pdf]
   \<and> content_type ex_txt \<notin> Some ` ALLOWED_MIME_TYPES
   \<and> (\<exists>detail tr.
         process_resumes_endpoint ex_env [ex_png, ex_txt, ex_pdf] ''u'' ''r1'' None []
           = (Inl (HTTPException 400 detail), tr, [])
         \<and> (\<forall>e\<in>set tr. \<exists>n. e = CheckFile n))
   \<and> ex_exe \<in> set [ex_exe, ex_png]
   \<and> get_file_extension (filename ex_exe) = Some ''exe''
   \<and> get_file_extension (filename ex_exe) \<notin> Some ` ALLOWED_EXTENSIONS
   \<and> (\<exists>detail tr.
         process_resumes_endpoint ex_env [ex_exe, ex_png] ''u'' ''r2'' None []
           = (Inl (HTTPException 400 detail), tr, [])
         \<and> (\<forall>e\<in>set tr. \<exists>n. e = CheckFile n))"
proof -
  have m: "ex_txt \<in> set [ex_png, ex_txt, ex_pdf]"
    by simp
  have c: "content_type ex_txt \<notin> Some ` ALLOWED_MIME_TYPES"
    by (auto simp: ex_txt_def ALLOWED_MIME_TYPES_def)
  then have c': "content_type ex_txt \<notin> Some ` ALLOWED_MIME_TYPES
         \<or> get_file_extension (filename ex_txt) \<notin> Some ` ALLOWED_EXTENSIONS"
    by simp
  have m2: "ex_exe \<in> set [ex_exe, ex_png]"
    by simp
  have x: "get_file_extension (filename ex_exe) = Some ''exe''"
    by code_simp
  have x2: "get_file_extension (filename ex_exe) \<notin> Some ` ALLOWED_EXTENSIONS"
    unfolding x by (auto simp: ALLOWED_EXTENSIONS_def)
  then have x': "content_type ex_exe \<notin> Some ` ALLOWED_MIME_TYPES
         \<or> get_file_extension (filename ex_exe) \<notin> Some ` ALLOWED_EXTENSIONS"
    by simp
  show ?thesis
    using m c x x2 m2
      invalid_file_rejected
        [OF m c', where env = ex_env and user_id = "''u''" and request_id = "''r1''"
           and query = None and stored = "[]"]
      invalid_file_rejected
        [OF m2 x', where env = ex_env and user_id = "''u''" and request_id = "''r2''"
           and query = None and stored = "[]"]
    by blast
qed







end
